theory Spec2Isabelle
  imports Main "HOL-Library.Word" "HOL-Library.Char_ord" "HOL-Library.List_Lexorder"
    "HOL-Library.Multiset"
begin

section \<open>The VirusTotal command-line driver (vt_driver.py)\<close>

text \<open>
  The script parses a subcommand, reads an API key from a configuration file, hands the
  request to the API client library and prints or saves what comes back. Everything it
  does is an effect on the world outside (standard output, standard error, the file
  system, the API client), so the model is a function from the world the run reads
  (\<open>env\<close>) and the parsed command line (\<open>namespace\<close>) to the list of effects the run
  performs, in order, and the way it ends.

  The script's own functions are modelled one by one, under their names. What they call
  in the standard library (\<^verbatim>\<open>configparser\<close>, \<^verbatim>\<open>json\<close>, \<^verbatim>\<open>os.path\<close>,
  \<^verbatim>\<open>print\<close>, \<^verbatim>\<open>open\<close>) follows Python 3 (the script tries
  \<^verbatim>\<open>import configparser\<close> first), in a version that still has
  \<^verbatim>\<open>SafeConfigParser\<close> (3.3 to 3.11), and the \<^verbatim>\<open>json\<close> module is the
  standard library's.
  The API client and the file system are parameters of the model.
\<close>

subsection \<open>Values\<close>

type_synonym path = string
type_synonym bytes = "8 word list"

text \<open>
  A Python \<^verbatim>\<open>str\<close> inside a JSON value: its code points. Strings compare code point
  by code point, which is the lexicographic order of these lists.
\<close>

type_synonym ustring = "nat list"

text \<open>
  A Python \<^verbatim>\<open>float\<close>. The script never computes with one: a float is decoded from
  an answer and printed. A finite float is the decimal numeral \<^verbatim>\<open>float.__repr__\<close>
  prints for it (sign, integer part, digits after the point, exponent), which determines
  it; the three special values are apart.
\<close>

datatype pyfloat =
    Finite bool nat "nat list" "int option"
  | NaN
  | Infinity
  | NegInfinity

text \<open>
  A decoded JSON value, as \<^verbatim>\<open>response.json()\<close> builds it. A Python \<^verbatim>\<open>dict\<close> is
  an association list in insertion order.
\<close>

datatype json =
    JNull
  | JBool bool
  | JInt int
  | JFloat pyfloat
  | JStr ustring
  | JList "json list"
  | JDict "(ustring \<times> json) list"

text \<open>
  What a call of the API client hands back: a decoded JSON value, or the raw body of the
  HTTP response (\<^verbatim>\<open>bytes\<close>).
\<close>

datatype response = Json json | Bytes bytes

text \<open>The exceptions a run can raise.\<close>

datatype py_error =
    SystemExit nat
  | NoSectionError
  | NoOptionError
  | ConfigParsingError
  | TypeError
  | OSError

text \<open>The methods of the API client the script calls, each with its one argument.\<close>

datatype api_call =
    ScanFile string
  | RescanFile string
  | GetFileReport string
  | GetFileBehaviour string
  | GetNetworkTraffic string
  | FileSearch string
  | GetFile string
  | ScanUrl string
  | GetUrlReport string
  | GetIpReport string
  | GetDomainReport string

text \<open>
  The effects of a run, as they happen: a line on standard output or standard error, the
  interpreter's traceback for an uncaught exception and its report of a
  \<^verbatim>\<open>DeprecationWarning\<close> (both on standard error), the construction of the API
  client, a call of one of its methods, and a file written in binary mode.
\<close>

datatype event =
    Stdout string
  | Stderr string
  | Traceback py_error
  | DeprecationWarning
  | ClientInit string
  | ApiCall api_call
  | FileWrite path bytes

text \<open>
  The parsed configuration file: the options of each section, as \<^verbatim>\<open>config.get\<close>
  sees them.
\<close>

type_synonym ini = "string \<rightharpoonup> (string \<rightharpoonup> string)"

text \<open>
  The world a run reads. \<open>read_ini\<close> is \<^verbatim>\<open>SafeConfigParser().read\<close> on a path
  (the parsed sections, or \<open>None\<close> when the parser raises on a malformed file;
  a file it cannot open has no sections); \<open>VTPrivateAPI\<close>
  is the client library: the answer of the service to a call made with an API key;
  \<open>open_wb\<close> says whether \<^verbatim>\<open>open(path, 'wb')\<close> succeeds;
  \<open>shows_deprecation\<close> says whether the interpreter reports a
  \<^verbatim>\<open>DeprecationWarning\<close> raised for a line of the script (Python 3.7 to 3.11 do by
  default, 3.3 to 3.6 do not).
\<close>

record env =
  expanduser :: "path \<Rightarrow> path"
  path_exists :: "path \<Rightarrow> bool"
  path_isdir :: "path \<Rightarrow> bool"
  read_ini :: "path \<Rightarrow> ini option"
  VTPrivateAPI :: "string \<Rightarrow> api_call \<Rightarrow> response"
  open_wb :: "path \<Rightarrow> bool"
  shows_deprecation :: bool

text \<open>
  The result of \<^verbatim>\<open>parse_args\<close>: the \<^verbatim>\<open>argparse\<close> namespace. The subparser
  chosen fixes which attributes exist and their types (\<^verbatim>\<open>args.hash\<close> is a list for
  \<^verbatim>\<open>rescan\<close> and a string for \<^verbatim>\<open>pcap\<close>), so the namespace is a tagged union;
  \<open>NoCommand\<close> is \<^verbatim>\<open>args.command is None\<close>, what \<^verbatim>\<open>add_subparsers(dest='command')\<close>
  gives when no subcommand is on the command line. The output directory of
  \<^verbatim>\<open>pcap\<close> and \<^verbatim>\<open>download\<close> is always present (it defaults to the working
  directory).
\<close>

datatype command =
    NoCommand
  | FileScan string
  | Rescan "string list"
  | FileReport "string list"
  | Behaviour string
  | Pcap string path
  | Search string
  | Download string path
  | UrlScan "string list"
  | UrlReport "string list"
  | IpReport string
  | DomainReport string

record namespace =
  config :: path
  command :: command

subsection \<open>Effects and exceptions\<close>

text \<open>
  A statement of the script yields the effects it performed and either the exception it
  raised or its value. Statements in sequence: the second runs only when the first
  returned.
\<close>

type_synonym 'a io = "event list \<times> (py_error + 'a)"

definition ret :: "'a \<Rightarrow> 'a io" where
  "ret x = ([], Inr x)"

definition raise :: "py_error \<Rightarrow> 'a io" where
  "raise e = ([], Inl e)"

definition emit :: "event \<Rightarrow> unit io" where
  "emit e = ([e], Inr ())"

definition bind :: "'a io \<Rightarrow> ('a \<Rightarrow> 'b io) \<Rightarrow> 'b io" where
  "bind m f =
     (case m of
        (ev, Inl e) \<Rightarrow> (ev, Inl e)
      | (ev, Inr x) \<Rightarrow> (case f x of (ev', r) \<Rightarrow> (ev @ ev', r)))"

subsection \<open>Strings\<close>

definition quote :: char where
  "quote = CHR 0x27"

definition newline :: char where
  "newline = CHR 0x0A"

text \<open>\<^verbatim>\<open>sep.join(xs)\<close>\<close>

fun str_join :: "string \<Rightarrow> string list \<Rightarrow> string" where
  "str_join sep [] = []"
| "str_join sep [x] = x"
| "str_join sep (x # y # ys) = x @ sep @ str_join sep (y # ys)"

text \<open>\<^verbatim>\<open>print(*xs, file=...)\<close>: the arguments separated by a space, then a newline.\<close>

definition print_line :: "string list \<Rightarrow> string" where
  "print_line xs = str_join '' '' xs @ [newline]"

text \<open>
  \<^verbatim>\<open>os.path.join(a, b)\<close> of \<^verbatim>\<open>posixpath\<close>: an absolute second component
  discards the first; otherwise a separator is added unless the first is empty or ends
  with one.
\<close>

definition os_path_join :: "path \<Rightarrow> path \<Rightarrow> path" where
  "os_path_join a b =
     (if b \<noteq> [] \<and> hd b = CHR ''/'' then b
      else if a = [] \<or> last a = CHR ''/'' then a @ b
      else a @ ''/'' @ b)"

subsection \<open>The JSON encoder\<close>

text \<open>
  \<^verbatim>\<open>json.dumps(obj, sort_keys=..., indent=...)\<close> of the standard library, on the
  values of type \<open>json\<close>, with the defaults the script leaves alone
  (\<^verbatim>\<open>ensure_ascii=True\<close>; the item separator is a comma and the key separator a
  colon and a space once an indent is given).
\<close>

definition hex_digit :: "nat \<Rightarrow> char" where
  "hex_digit n = ''0123456789abcdef'' ! (n mod 16)"

text \<open>\<^verbatim>\<open>'{0:04x}'.format(n)\<close>, for a number below 65536.\<close>

definition hex4 :: "nat \<Rightarrow> string" where
  "hex4 n = [hex_digit (n div 4096), hex_digit (n div 256), hex_digit (n div 16), hex_digit n]"

definition backslash :: char where
  "backslash = CHR 0x5C"

definition dquote :: char where
  "dquote = CHR 0x22"

text \<open>
  One code point of a string literal: backslash and double quote are escaped, the
  control characters with a short escape use it, every other code point outside the
  printable ASCII range becomes \<^verbatim>\<open>\uXXXX\<close>, as a surrogate pair from 65536 on, and
  a printable ASCII character stands for itself.
\<close>

definition escape_char :: "nat \<Rightarrow> string" where
  "escape_char n =
     (if n = 0x5C then [backslash, backslash]
      else if n = 0x22 then [backslash, dquote]
      else if n = 0x08 then [backslash, CHR ''b'']
      else if n = 0x0C then [backslash, CHR ''f'']
      else if n = 0x0A then [backslash, CHR ''n'']
      else if n = 0x0D then [backslash, CHR ''r'']
      else if n = 0x09 then [backslash, CHR ''t'']
      else if n < 0x20 \<or> 0x7E < n then
        (if n < 0x10000 then [backslash, CHR ''u''] @ hex4 n
         else [backslash, CHR ''u''] @ hex4 (0xD800 + ((n - 0x10000) div 1024) mod 1024)
              @ [backslash, CHR ''u''] @ hex4 (0xDC00 + (n - 0x10000) mod 1024))
      else [char_of n])"

definition encode_basestring_ascii :: "ustring \<Rightarrow> string" where
  "encode_basestring_ascii s = [dquote] @ concat (map escape_char s) @ [dquote]"

definition digit_char :: "nat \<Rightarrow> char" where
  "digit_char n = ''0123456789'' ! (n mod 10)"

fun nat_repr :: "nat \<Rightarrow> string" where
  "nat_repr n = (if n < 10 then [digit_char n] else nat_repr (n div 10) @ [digit_char n])"

declare nat_repr.simps [simp del]

definition int_repr :: "int \<Rightarrow> string" where
  "int_repr i = (if i < 0 then CHR ''-'' # nat_repr (nat (- i)) else nat_repr (nat i))"

text \<open>
  \<^verbatim>\<open>floatstr\<close> of the encoder: the three special values by name, and
  \<^verbatim>\<open>float.__repr__\<close> for a finite float (an exponent has at least two digits).
\<close>

definition exponent_repr :: "int \<Rightarrow> string" where
  "exponent_repr e =
     [CHR ''e'', if e < 0 then CHR ''-'' else CHR ''+'']
     @ (if nat \<bar>e\<bar> < 10 then ''0'' else []) @ nat_repr (nat \<bar>e\<bar>)"

fun floatstr :: "pyfloat \<Rightarrow> string" where
  "floatstr NaN = ''NaN''"
| "floatstr Infinity = ''Infinity''"
| "floatstr NegInfinity = ''-Infinity''"
| "floatstr (Finite negative whole digits exponent) =
     (if negative then ''-'' else []) @ nat_repr whole
     @ (if digits = [] then [] else CHR ''.'' # map digit_char digits)
     @ (case exponent of None \<Rightarrow> [] | Some e \<Rightarrow> exponent_repr e)"

text \<open>
  The newline and the indentation that open each item at a nesting level, the separator
  between two items, and the text before the closing bracket.
\<close>

definition newline_indent :: "nat option \<Rightarrow> nat \<Rightarrow> string" where
  "newline_indent indent level =
     (case indent of None \<Rightarrow> [] | Some n \<Rightarrow> newline # replicate (n * level) CHR '' '')"

definition item_separator :: "nat option \<Rightarrow> nat \<Rightarrow> string" where
  "item_separator indent level =
     (case indent of None \<Rightarrow> '', '' | Some n \<Rightarrow> '','' @ newline_indent indent level)"

definition key_separator :: string where
  "key_separator = '': ''"

text \<open>
  \<^verbatim>\<open>sorted(dct.items())\<close> when \<^verbatim>\<open>sort_keys\<close> is set. The keys of a dict are
  distinct, so sorting the items is sorting by key.
\<close>

definition dict_items :: "bool \<Rightarrow> (ustring \<times> 'a) list \<Rightarrow> (ustring \<times> 'a) list" where
  "dict_items sort_keys kvs = (if sort_keys then sort_key fst kvs else kvs)"

function (sequential) iterencode :: "bool \<Rightarrow> nat option \<Rightarrow> nat \<Rightarrow> json \<Rightarrow> string" where
  "iterencode sort_keys indent level JNull = ''null''"
| "iterencode sort_keys indent level (JBool b) = (if b then ''true'' else ''false'')"
| "iterencode sort_keys indent level (JInt i) = int_repr i"
| "iterencode sort_keys indent level (JFloat x) = floatstr x"
| "iterencode sort_keys indent level (JStr s) = encode_basestring_ascii s"
| "iterencode sort_keys indent level (JList xs) =
     (if xs = [] then ''[]''
      else ''['' @ newline_indent indent (level + 1)
        @ str_join (item_separator indent (level + 1))
            (map (iterencode sort_keys indent (level + 1)) xs)
        @ newline_indent indent level @ '']'')"
| "iterencode sort_keys indent level (JDict kvs) =
     (if kvs = [] then ''{}''
      else ''{'' @ newline_indent indent (level + 1)
        @ str_join (item_separator indent (level + 1))
            (map (\<lambda>kv. encode_basestring_ascii (fst kv) @ key_separator
                         @ iterencode sort_keys indent (level + 1) (snd kv))
               (dict_items sort_keys kvs))
        @ newline_indent indent level @ ''}'')"
  by pat_completeness auto
termination
proof (relation "measure (\<lambda>(sort_keys, indent, level, v). size v)")
  show "wf (measure (\<lambda>(sort_keys, indent, level, v). size v))"
    by simp
next
  fix sort_keys :: bool and indent :: "nat option" and level :: nat
    and xs :: "json list" and x :: json
  assume "x \<in> set xs"
  then have "size x < Suc (size_list size xs)"
    by (induction xs) auto
  then show "((sort_keys, indent, level + 1, x), (sort_keys, indent, level, JList xs))
      \<in> measure (\<lambda>(sort_keys, indent, level, v). size v)"
    by simp
next
  fix sort_keys :: bool and indent :: "nat option" and level :: nat
    and kvs :: "(ustring \<times> json) list" and kv :: "ustring \<times> json"
  assume "kv \<in> set (dict_items sort_keys kvs)"
  then have "kv \<in> set kvs"
    by (simp add: dict_items_def split: if_splits)
  then have "size (snd kv) < Suc (size_list (size_prod (\<lambda>_. 0) size) kvs)"
    by (induction kvs) auto
  then show "((sort_keys, indent, level + 1, snd kv), (sort_keys, indent, level, JDict kvs))
      \<in> measure (\<lambda>(sort_keys, indent, level, v). size v)"
    by simp
qed

definition json_dumps :: "bool \<Rightarrow> nat option \<Rightarrow> json \<Rightarrow> string" where
  "json_dumps sort_keys indent obj = iterencode sort_keys indent 0 obj"

subsection \<open>The script\<close>

text \<open>
  \<^verbatim>\<open>error(*args)\<close>: the message goes to standard error after \<^verbatim>\<open>ERROR:\<close>, then
  \<^verbatim>\<open>sys.exit(1)\<close>. It never returns.
\<close>

definition error :: "string list \<Rightarrow> 'a io" where
  "error args = bind (emit (Stderr (print_line (''ERROR:'' # args)))) (\<lambda>_. raise (SystemExit 1))"

text \<open>
  \<^verbatim>\<open>config.get(section, option)\<close>: a missing section and a missing option each raise;
  the call never returns \<^verbatim>\<open>None\<close>.
\<close>

definition config_get :: "ini \<Rightarrow> string \<Rightarrow> string \<Rightarrow> py_error + string" where
  "config_get cfg section option =
     (case cfg section of
        None \<Rightarrow> Inl NoSectionError
      | Some opts \<Rightarrow> (case opts option of None \<Rightarrow> Inl NoOptionError | Some v \<Rightarrow> Inr v))"

text \<open>
  \<^verbatim>\<open>configparser.SafeConfigParser()\<close>: the constructor of the deprecated alias
  raises a \<^verbatim>\<open>DeprecationWarning\<close> for the line that calls it, which the
  interpreter reports on standard error or ignores.
\<close>

definition SafeConfigParser :: "env \<Rightarrow> unit io" where
  "SafeConfigParser world = (if shows_deprecation world then emit DeprecationWarning else ret ())"

text \<open>
  \<^verbatim>\<open>parse_config(conf_file)\<close>. The value is a Python string or \<^verbatim>\<open>None\<close>; the
  \<^verbatim>\<open>return None\<close> that closes the function follows the call of \<^verbatim>\<open>error\<close>.
\<close>

definition parse_config :: "env \<Rightarrow> path \<Rightarrow> string option io" where
  "parse_config world conf_file =
     (if path_exists world conf_file then
        bind (SafeConfigParser world) (\<lambda>_.
          (case read_ini world conf_file of
             None \<Rightarrow> raise ConfigParsingError
           | Some cfg \<Rightarrow>
               (case config_get cfg ''vt'' ''apikey'' of
                  Inl e \<Rightarrow> raise e
                | Inr v \<Rightarrow> ret (Some v))))
      else
        bind (error [''Config file '' @ [quote] @ conf_file @ [quote] @ '' does not exist''] :: unit io)
          (\<lambda>_. ret None))"

text \<open>
  \<^verbatim>\<open>pretty_print_json(json_data)\<close>: \<^verbatim>\<open>json.dumps\<close> with sorted keys and an
  indent of 4, printed on standard output. \<^verbatim>\<open>bytes\<close> are not JSON serializable.
\<close>

definition pretty_print_json :: "response \<Rightarrow> unit io" where
  "pretty_print_json json_data =
     (case json_data of
        Json obj \<Rightarrow> emit (Stdout (print_line [json_dumps True (Some 4) obj]))
      | Bytes b \<Rightarrow> raise TypeError)"

definition check_num_args :: "string list \<Rightarrow> unit io" where
  "check_num_args args =
     (if length args > 25 then
        error [''The VT Private API only allows a maximum of 25 arguments to ''
               @ ''be specified in a single query'']
      else ret ())"

text \<open>A call of a method of the client: the call is made, and its answer is the value.\<close>

definition call :: "(api_call \<Rightarrow> response) \<Rightarrow> api_call \<Rightarrow> response io" where
  "call virus_total c = bind (emit (ApiCall c)) (\<lambda>_. ret (virus_total c))"

definition file_scan :: "(api_call \<Rightarrow> response) \<Rightarrow> string \<Rightarrow> unit io" where
  "file_scan virus_total file_to_scan =
     bind (call virus_total (ScanFile file_to_scan)) pretty_print_json"

definition file_rescan :: "(api_call \<Rightarrow> response) \<Rightarrow> string list \<Rightarrow> unit io" where
  "file_rescan virus_total hashlist =
     bind (check_num_args hashlist) (\<lambda>_.
     bind (call virus_total (RescanFile (str_join '','' hashlist))) pretty_print_json)"

definition file_report :: "(api_call \<Rightarrow> response) \<Rightarrow> string list \<Rightarrow> unit io" where
  "file_report virus_total hashlist =
     bind (check_num_args hashlist) (\<lambda>_.
     bind (call virus_total (GetFileReport (str_join '','' hashlist))) pretty_print_json)"

definition file_behaviour :: "(api_call \<Rightarrow> response) \<Rightarrow> string \<Rightarrow> unit io" where
  "file_behaviour virus_total hash =
     bind (call virus_total (GetFileBehaviour hash)) pretty_print_json"

text \<open>\<^verbatim>\<open>type(response) is dict\<close>\<close>

fun is_dict :: "response \<Rightarrow> bool" where
  "is_dict (Json (JDict kvs)) = True"
| "is_dict _ = False"

text \<open>
  \<^verbatim>\<open>with open(path, 'wb') as out_file: out_file.write(response)\<close>. Opening can fail;
  once the file is open it exists and is empty, and writing anything but
  \<^verbatim>\<open>bytes\<close> to it raises.
\<close>

definition write_file :: "env \<Rightarrow> path \<Rightarrow> response \<Rightarrow> unit io" where
  "write_file world p response =
     (if \<not> open_wb world p then raise OSError
      else (case response of
              Bytes b \<Rightarrow> emit (FileWrite p b)
            | Json obj \<Rightarrow> bind (emit (FileWrite p [])) (\<lambda>_. raise TypeError)))"

definition not_a_directory :: "path \<Rightarrow> string" where
  "not_a_directory output_dir = [quote] @ output_dir @ [quote] @ '' is not a valid output directory''"

definition network_traffic :: "env \<Rightarrow> (api_call \<Rightarrow> response) \<Rightarrow> string \<Rightarrow> path \<Rightarrow> unit io" where
  "network_traffic world virus_total hash output_dir =
     bind (if \<not> path_isdir world output_dir then error [not_a_directory output_dir] else ret ()) (\<lambda>_.
     bind (call virus_total (GetNetworkTraffic hash)) (\<lambda>response.
       if is_dict response then pretty_print_json response
       else write_file world (os_path_join output_dir (hash @ ''.pcap'')) response))"

definition search :: "(api_call \<Rightarrow> response) \<Rightarrow> string \<Rightarrow> unit io" where
  "search virus_total query = bind (call virus_total (FileSearch query)) pretty_print_json"

definition file_download :: "env \<Rightarrow> (api_call \<Rightarrow> response) \<Rightarrow> string \<Rightarrow> path \<Rightarrow> unit io" where
  "file_download world virus_total hash output_dir =
     bind (if \<not> path_isdir world output_dir then error [not_a_directory output_dir] else ret ()) (\<lambda>_.
     bind (call virus_total (GetFile hash)) (\<lambda>response.
       if is_dict response then pretty_print_json response
       else
         bind (write_file world (os_path_join output_dir hash) response) (\<lambda>_.
         file_report virus_total [hash])))"

definition url_scan :: "(api_call \<Rightarrow> response) \<Rightarrow> string list \<Rightarrow> unit io" where
  "url_scan virus_total url_list =
     bind (check_num_args url_list) (\<lambda>_.
     bind (call virus_total (ScanUrl (str_join [newline] url_list))) pretty_print_json)"

definition url_report :: "(api_call \<Rightarrow> response) \<Rightarrow> string list \<Rightarrow> unit io" where
  "url_report virus_total url_list =
     bind (check_num_args url_list) (\<lambda>_.
     bind (call virus_total (GetUrlReport (str_join [newline] url_list))) pretty_print_json)"

definition ip_report :: "(api_call \<Rightarrow> response) \<Rightarrow> string \<Rightarrow> unit io" where
  "ip_report virus_total ip_address =
     bind (call virus_total (GetIpReport ip_address)) pretty_print_json"

definition domain_report :: "(api_call \<Rightarrow> response) \<Rightarrow> string \<Rightarrow> unit io" where
  "domain_report virus_total domain_name =
     bind (call virus_total (GetDomainReport domain_name)) pretty_print_json"

text \<open>
  \<^verbatim>\<open>main()\<close>, from the parsed arguments on. The chain of \<^verbatim>\<open>elif\<close> has no final
  \<^verbatim>\<open>else\<close>: with no subcommand, nothing more is done.
\<close>

definition main :: "env \<Rightarrow> namespace \<Rightarrow> unit io" where
  "main world args =
     (let config_file = expanduser world (config args) in
      bind (parse_config world config_file) (\<lambda>api_key.
        (case api_key of
           None \<Rightarrow>
             error [''An API key must be specified in '' @ [quote] @ config_file @ [quote]]
         | Some key \<Rightarrow>
             bind (emit (ClientInit key)) (\<lambda>_.
               (let virus_total = VTPrivateAPI world key in
                (case command args of
                   FileScan file \<Rightarrow> file_scan virus_total file
                 | Rescan hashes \<Rightarrow> file_rescan virus_total hashes
                 | FileReport hashes \<Rightarrow> file_report virus_total hashes
                 | Behaviour h \<Rightarrow> file_behaviour virus_total h
                 | Pcap h output_dir \<Rightarrow> network_traffic world virus_total h output_dir
                 | Search query \<Rightarrow> search virus_total query
                 | Download h output_dir \<Rightarrow> file_download world virus_total h output_dir
                 | UrlScan urls \<Rightarrow> url_scan virus_total urls
                 | UrlReport urls \<Rightarrow> url_report virus_total urls
                 | IpReport ip \<Rightarrow> ip_report virus_total ip
                 | DomainReport domain \<Rightarrow> domain_report virus_total domain
                 | NoCommand \<Rightarrow> ret ()))))))"

text \<open>
  The process: \<^verbatim>\<open>main()\<close> under the interpreter. A return is exit code 0,
  \<^verbatim>\<open>sys.exit(n)\<close> is exit code \<open>n\<close>, and any other exception is uncaught: the
  interpreter prints its traceback on standard error and the exit code is 1.
\<close>

definition run_script :: "env \<Rightarrow> namespace \<Rightarrow> event list \<times> nat" where
  "run_script world args =
     (case main world args of
        (ev, Inr u) \<Rightarrow> (ev, 0)
      | (ev, Inl (SystemExit n)) \<Rightarrow> (ev, n)
      | (ev, Inl e) \<Rightarrow> (ev @ [Traceback e], 1))"

text \<open>The calls of the client among the effects, in order.\<close>

fun is_api_call :: "event \<Rightarrow> bool" where
  "is_api_call (ApiCall c) = True"
| "is_api_call _ = False"

definition api_calls :: "event list \<Rightarrow> event list" where
  "api_calls ev = filter is_api_call ev"

text \<open>
  The API key a configuration file holds: the file exists, parses, and has the option
  \<^verbatim>\<open>apikey\<close> in the section \<^verbatim>\<open>vt\<close>.
\<close>

definition configured_key :: "env \<Rightarrow> path \<Rightarrow> string option" where
  "configured_key world conf_file =
     (if path_exists world conf_file then
        (case read_ini world conf_file of
           None \<Rightarrow> None
         | Some cfg \<Rightarrow> (case cfg ''vt'' of None \<Rightarrow> None | Some opts \<Rightarrow> opts ''apikey''))
      else None)"


subsection \<open>Reading a printed text\<close>











text \<open>Lines joined by newlines.\<close>

definition join_lines :: "string list \<Rightarrow> string" where
  "join_lines ls = str_join [newline] ls"



text \<open>An outline as a layout shows it: four spaces per level, the keys as string literals.\<close>

definition laid_out :: "(nat \<times> ustring option) list \<Rightarrow> (nat \<times> string option) list" where
  "laid_out ol = map (\<lambda>(depth, key). (4 * depth, map_option encode_basestring_ascii key)) ol"

text \<open>
  The local checks a command makes before it calls the client: the ceiling of 25 on a
  list, and the output directory of \<^verbatim>\<open>pcap\<close> and \<^verbatim>\<open>download\<close>.
\<close>

fun passes_validation :: "env \<Rightarrow> command \<Rightarrow> bool" where
  "passes_validation world (Rescan xs) = (length xs \<le> 25)"
| "passes_validation world (FileReport xs) = (length xs \<le> 25)"
| "passes_validation world (UrlScan xs) = (length xs \<le> 25)"
| "passes_validation world (UrlReport xs) = (length xs \<le> 25)"
| "passes_validation world (Pcap h output_dir) = path_isdir world output_dir"
| "passes_validation world (Download h output_dir) = path_isdir world output_dir"
| "passes_validation world cmd = True"

fun is_download :: "command \<Rightarrow> bool" where
  "is_download (Download h output_dir) = True"
| "is_download cmd = False"

text \<open>
  A world for concrete runs: the configuration file \<^verbatim>\<open>/home/u/.vtapi\<close> holds the key
  \<^verbatim>\<open>K\<close>, \<^verbatim>\<open>out\<close> is the only directory, the service answers the two download
  calls with bytes (with an error object for the hash \<^verbatim>\<open>missing\<close>) and every other
  call with a JSON object, every file can be opened for writing, and the interpreter
  ignores deprecation warnings. \<open>ustr\<close> is the Python string with a given ASCII text.
\<close>

definition ustr :: "string \<Rightarrow> ustring" where
  "ustr s = map of_char s"

definition not_found :: json where
  "not_found =
     JDict [(ustr ''response_code'', JInt 404), (ustr ''error'', JStr (ustr ''File not found.''))]"

definition sample_report :: json where
  "sample_report = JDict [(ustr ''b'', JInt 12), (ustr ''a'', JList [JNull, JBool True])]"

definition sample_world :: env where
  "sample_world =
     \<lparr> expanduser = (\<lambda>p. p),
       path_exists = (\<lambda>p. p = ''/home/u/.vtapi''),
       path_isdir = (\<lambda>p. p = ''out''),
       read_ini = (\<lambda>p. Some [''vt'' \<mapsto> [''apikey'' \<mapsto> ''K'']]),
       VTPrivateAPI = (\<lambda>k c.
         case c of
           GetFile h \<Rightarrow> (if h = ''missing'' then Json not_found else Bytes [1, 2])
         | GetNetworkTraffic h \<Rightarrow> (if h = ''missing'' then Json not_found else Bytes [3])
         | _ \<Rightarrow> Json sample_report),
       open_wb = (\<lambda>p. True),
       shows_deprecation = False \<rparr>"

text \<open>The same world with a configuration file whose section \<^verbatim>\<open>vt\<close> is empty.\<close>

definition keyless_world :: env where
  "keyless_world = sample_world \<lparr> read_ini := (\<lambda>p. Some [''vt'' \<mapsto> Map.empty]) \<rparr>"

text \<open>The same world under an interpreter that reports deprecation warnings.\<close>

definition warning_world :: env where
  "warning_world = sample_world \<lparr> shows_deprecation := True \<rparr>"

text \<open>What a run prints: everything but the client's construction, its calls and the files.\<close>

fun is_printed :: "event \<Rightarrow> bool" where
  "is_printed (Stdout s) = True"
| "is_printed (Stderr s) = True"
| "is_printed (Traceback e) = True"
| "is_printed DeprecationWarning = True"
| "is_printed e = False"

definition printed :: "event list \<Rightarrow> event list" where
  "printed ev = filter is_printed ev"

section \<open>Properties\<close>

subsection \<open>Loading the configuration\<close>

lemmas io_defs = bind_def ret_def raise_def emit_def error_def call_def SafeConfigParser_def

lemma parse_config_key:
  "configured_key world p = Some key \<Longrightarrow>
     parse_config world p = (fst (SafeConfigParser world), Inr (Some key))"
  by (auto simp: configured_key_def parse_config_def config_get_def io_defs
      split: if_splits option.splits)

lemma parse_config_fails:
  assumes "configured_key world p = None"
  shows "\<exists>ev e. parse_config world p = (ev, Inl e) \<and> api_calls ev = []
    \<and> e \<in> {SystemExit 1, NoSectionError, NoOptionError, ConfigParsingError}"
  using assms
  by (auto simp: configured_key_def parse_config_def config_get_def io_defs api_calls_def
      split: if_splits option.splits)

text \<open>Without a key the run ends with exit code 1 and the client is never called.\<close>

lemma run_script_no_key:
  assumes "configured_key world (expanduser world (config args)) = None"
  shows "snd (run_script world args) = 1 \<and> api_calls (fst (run_script world args)) = []"
proof -
  from parse_config_fails [OF assms] obtain ev e where
    pc: "parse_config world (expanduser world (config args)) = (ev, Inl e)"
    and ev: "api_calls ev = []"
    and e: "e \<in> {SystemExit 1, NoSectionError, NoOptionError, ConfigParsingError}"
    by blast
  have "main world args = (ev, Inl e)"
    by (simp add: main_def pc bind_def)
  with ev e show ?thesis
    by (auto simp: run_script_def api_calls_def)
qed

text \<open>With a key, \<open>main\<close> constructs the client and goes on to the command.\<close>

lemma main_with_key:
  assumes "configured_key world (expanduser world (config args)) = Some key"
  shows "main world args =
    bind (SafeConfigParser world) (\<lambda>_. bind (emit (ClientInit key)) (\<lambda>_.
      (case command args of
         FileScan file \<Rightarrow> file_scan (VTPrivateAPI world key) file
       | Rescan hashes \<Rightarrow> file_rescan (VTPrivateAPI world key) hashes
       | FileReport hashes \<Rightarrow> file_report (VTPrivateAPI world key) hashes
       | Behaviour h \<Rightarrow> file_behaviour (VTPrivateAPI world key) h
       | Pcap h output_dir \<Rightarrow> network_traffic world (VTPrivateAPI world key) h output_dir
       | Search query \<Rightarrow> search (VTPrivateAPI world key) query
       | Download h output_dir \<Rightarrow> file_download world (VTPrivateAPI world key) h output_dir
       | UrlScan urls \<Rightarrow> url_scan (VTPrivateAPI world key) urls
       | UrlReport urls \<Rightarrow> url_report (VTPrivateAPI world key) urls
       | IpReport ip \<Rightarrow> ip_report (VTPrivateAPI world key) ip
       | DomainReport domain \<Rightarrow> domain_report (VTPrivateAPI world key) domain
       | NoCommand \<Rightarrow> ret ())))"
  by (simp add: main_def parse_config_key [OF assms] io_defs Let_def)

subsection \<open>The ceiling on list arguments\<close>

lemma check_num_args_over:
  "25 < length xs \<Longrightarrow> check_num_args xs =
     ([Stderr (print_line [''ERROR:'', ''The VT Private API only allows a maximum of 25 arguments to be specified in a single query''])], Inl (SystemExit 1))"
  by (simp add: check_num_args_def io_defs)

lemma check_num_args_within:
  "length xs \<le> 25 \<Longrightarrow> check_num_args xs = ret ()"
  by (simp add: check_num_args_def)

text \<open>
  C1. For each of the four commands that take a list (\<^verbatim>\<open>rescan\<close>,
  \<^verbatim>\<open>file-report\<close>, \<^verbatim>\<open>url-scan\<close>, \<^verbatim>\<open>url-report\<close>, each paired here with the
  call it delegates to): a list of more than 25 elements ends the run with exit code 1
  and without any call of the client, whatever the world; when the configuration holds a
  key, all the run does (after what constructing the configuration parser reports) is
  construct the client and print the usage error on standard error. A list of 25 or fewer
  elements passes \<open>check_num_args\<close>, and with a key the delegated call is then made,
  right after the client is constructed.
\<close>

theorem list_argument_ceiling:
  assumes "(command args, c) \<in>
     {(Rescan xs, RescanFile (str_join '','' xs)),
      (FileReport xs, GetFileReport (str_join '','' xs)),
      (UrlScan xs, ScanUrl (str_join [newline] xs)),
      (UrlReport xs, GetUrlReport (str_join [newline] xs))}"
  shows "(25 < length xs \<longrightarrow>
            snd (run_script world args) = 1
          \<and> api_calls (fst (run_script world args)) = []
          \<and> (configured_key world (expanduser world (config args)) = Some key \<longrightarrow>
               fst (run_script world args) =
                 fst (SafeConfigParser world)
                 @ [ClientInit key,
                    Stderr (''ERROR: The VT Private API only allows a maximum of 25 arguments ''
                            @ ''to be specified in a single query'' @ [newline])]))
       \<and> (length xs \<le> 25 \<longrightarrow>
            check_num_args xs = ret ()
          \<and> (configured_key world (expanduser world (config args)) = Some key \<longrightarrow>
               api_calls (fst (run_script world args)) = [ApiCall c]
             \<and> (\<exists>rest. fst (run_script world args) =
                   fst (SafeConfigParser world) @ [ClientInit key, ApiCall c] @ rest)))"
proof (cases "configured_key world (expanduser world (config args))")
  case None
  with run_script_no_key [OF None] show ?thesis
    by (simp add: check_num_args_within)
next
  case (Some k)
  note m = main_with_key [OF Some]
  show ?thesis
  proof (cases "25 < length xs")
    case True
    with assms Some show ?thesis
      by (auto simp: run_script_def m file_rescan_def file_report_def url_scan_def
          url_report_def check_num_args_over io_defs api_calls_def print_line_def)
  next
    case False
    then have le: "length xs \<le> 25" by simp
    with assms Some show ?thesis
      by (auto simp: run_script_def m file_rescan_def file_report_def url_scan_def
          url_report_def check_num_args_within io_defs api_calls_def pretty_print_json_def
          split: response.splits)
  qed
qed

theorem list_argument_ceiling_witness:
  "snd (run_script sample_world
          \<lparr>config = ''/home/u/.vtapi'', command = Rescan (replicate 26 ''h'')\<rparr>) = 1
   \<and> api_calls (fst (run_script sample_world
          \<lparr>config = ''/home/u/.vtapi'', command = Rescan (replicate 26 ''h'')\<rparr>)) = []
   \<and> fst (run_script sample_world
          \<lparr>config = ''/home/u/.vtapi'', command = Rescan (replicate 26 ''h'')\<rparr>) =
       [ClientInit ''K'',
        Stderr (''ERROR: The VT Private API only allows a maximum of 25 arguments ''
                @ ''to be specified in a single query'' @ [newline])]
   \<and> check_num_args [''u1'', ''u2''] = ret ()
   \<and> api_calls (fst (run_script sample_world
          \<lparr>config = ''/home/u/.vtapi'', command = UrlScan [''u1'', ''u2'']\<rparr>)) =
       [ApiCall (ScanUrl (''u1'' @ [newline] @ ''u2''))]"
proof -
  have k: "configured_key sample_world (expanduser sample_world ''/home/u/.vtapi'') = Some ''K''"
    by (simp add: configured_key_def sample_world_def)
  have j: "str_join [newline] [''u1'', ''u2''] = ''u1'' @ [newline] @ ''u2''"
    by simp
  have d: "fst (SafeConfigParser sample_world) = []"
    by (simp add: sample_world_def SafeConfigParser_def ret_def)
  show ?thesis
    using
    list_argument_ceiling [where args = "\<lparr>config = ''/home/u/.vtapi'', command = Rescan (replicate 26 ''h'')\<rparr>"
      and xs = "replicate 26 ''h''" and c = "RescanFile (str_join '','' (replicate 26 ''h''))"
      and world = sample_world and key = "''K''"]
    list_argument_ceiling [where args = "\<lparr>config = ''/home/u/.vtapi'', command = UrlScan [''u1'', ''u2'']\<rparr>"
      and xs = "[''u1'', ''u2'']" and c = "ScanUrl (str_join [newline] [''u1'', ''u2''])"
      and world = sample_world and key = "''K''"]
    by (simp add: k j d api_calls_def del: str_join.simps)
qed

subsection \<open>Runs on the sample world\<close>

lemmas handler_defs = file_scan_def file_rescan_def file_report_def file_behaviour_def
  network_traffic_def search_def file_download_def url_scan_def url_report_def ip_report_def
  domain_report_def write_file_def pretty_print_json_def check_num_args_def
  not_a_directory_def print_line_def

lemma sample_key:
  "configured_key sample_world (expanduser sample_world ''/home/u/.vtapi'') = Some ''K''"
  by (simp add: configured_key_def sample_world_def)

lemma sample_facts:
  "path_isdir sample_world ''out''"
  "\<not> path_isdir sample_world ''nowhere''"
  "\<not> path_exists sample_world (expanduser sample_world ''/nowhere'')"
  "open_wb sample_world p"
  "VTPrivateAPI sample_world ''K'' (GetFile ''h'') = Bytes [1, 2]"
  "VTPrivateAPI sample_world ''K'' (GetNetworkTraffic ''h'') = Bytes [3]"
  "VTPrivateAPI sample_world ''K'' (GetFile ''missing'') = Json not_found"
  "VTPrivateAPI sample_world ''K'' (GetFileReport x) = Json sample_report"
  "VTPrivateAPI sample_world ''K'' (GetIpReport x) = Json sample_report"
  "fst (SafeConfigParser sample_world) = []"
  by (simp_all add: sample_world_def SafeConfigParser_def ret_def)

subsection \<open>The configuration file\<close>

text \<open>
  A configuration file that does not exist is a fatal error that names the path, on
  standard error after \<^verbatim>\<open>ERROR:\<close>, with exit code 1.
\<close>

lemma parse_config_never_None: "snd (parse_config world p) \<noteq> Inr None"
  by (simp add: parse_config_def config_get_def io_defs split: option.splits)

lemma missing_config_file:
  assumes "\<not> path_exists world (expanduser world (config args))"
  shows "run_script world args =
      ([Stderr (''ERROR: Config file '' @ [quote] @ expanduser world (config args)
                @ [quote] @ '' does not exist'' @ [newline])], 1)"
  using assms
  by (simp add: run_script_def main_def parse_config_def io_defs print_line_def Let_def)


text \<open>
  A file that exists but has no option \<^verbatim>\<open>apikey\<close>, or no section \<^verbatim>\<open>vt\<close>, makes
  \<^verbatim>\<open>config.get\<close> raise. Nothing catches the exception: the run ends with the
  interpreter's traceback, and the message of \<open>main\<close> about a missing API key, guarded
  by \<^verbatim>\<open>api_key is None\<close>, is never printed (\<open>parse_config_never_None\<close>).
\<close>

lemma missing_option:
  assumes "path_exists world (expanduser world (config args))"
    and "read_ini world (expanduser world (config args)) = Some cfg"
    and "cfg ''vt'' = Some opts" and "opts ''apikey'' = None"
  shows "run_script world args = (fst (SafeConfigParser world) @ [Traceback NoOptionError], 1)"
  using assms
  by (simp add: run_script_def main_def parse_config_def config_get_def io_defs Let_def)

lemma missing_section:
  assumes "path_exists world (expanduser world (config args))"
    and "read_ini world (expanduser world (config args)) = Some cfg"
    and "cfg ''vt'' = None"
  shows "run_script world args = (fst (SafeConfigParser world) @ [Traceback NoSectionError], 1)"
  using assms
  by (simp add: run_script_def main_def parse_config_def config_get_def io_defs Let_def)

text \<open>
  C2. The claim: a missing configuration file, and a file without \<^verbatim>\<open>apikey\<close> under
  \<^verbatim>\<open>vt\<close>, each end the run with a message on standard error that starts with
  \<^verbatim>\<open>ERROR:\<close> and names the configuration path, and exit code 1. The first half holds
  (\<open>missing_config_file\<close>). For the second, the run below reads a file whose section
  \<^verbatim>\<open>vt\<close> has no \<^verbatim>\<open>apikey\<close>: all it does is die of the uncaught
  \<^verbatim>\<open>NoOptionError\<close>; no line with \<^verbatim>\<open>ERROR:\<close> and the path is printed.
\<close>

theorem missing_apikey_is_uncaught:
  "run_script keyless_world \<lparr>config = ''/home/u/.vtapi'', command = FileReport [''abc123'']\<rparr>
     = ([Traceback NoOptionError], 1)"
  by (simp add: run_script_def main_def parse_config_def config_get_def keyless_world_def
      sample_world_def io_defs Let_def)

subsection \<open>The output directory\<close>

text \<open>
  C5. For \<^verbatim>\<open>pcap\<close> and \<^verbatim>\<open>download\<close>, an output directory that is not a directory
  ends the run with exit code 1 and without any call of the client, whatever the world;
  when the configuration holds a key, all the run does is construct the client and print
  the error that names the directory.
\<close>

theorem output_dir_checked_first:
  assumes "command args \<in> {Pcap h output_dir, Download h output_dir}"
    and "\<not> path_isdir world output_dir"
  shows "snd (run_script world args) = 1
       \<and> api_calls (fst (run_script world args)) = []
       \<and> (configured_key world (expanduser world (config args)) = Some key \<longrightarrow>
            fst (run_script world args) =
              fst (SafeConfigParser world)
              @ [ClientInit key,
                 Stderr (''ERROR: '' @ [quote] @ output_dir @ [quote]
                         @ '' is not a valid output directory'' @ [newline])])"
proof (cases "configured_key world (expanduser world (config args))")
  case None
  with run_script_no_key [OF None] show ?thesis
    by simp
next
  case (Some k)
  with assms show ?thesis
    by (auto simp: run_script_def main_with_key [OF Some] handler_defs io_defs api_calls_def)
qed

theorem output_dir_checked_first_witness:
  "snd (run_script sample_world
          \<lparr>config = ''/home/u/.vtapi'', command = Pcap ''h'' ''nowhere''\<rparr>) = 1
   \<and> api_calls (fst (run_script sample_world
          \<lparr>config = ''/home/u/.vtapi'', command = Pcap ''h'' ''nowhere''\<rparr>)) = []
   \<and> fst (run_script sample_world
          \<lparr>config = ''/home/u/.vtapi'', command = Pcap ''h'' ''nowhere''\<rparr>) =
       [ClientInit ''K'',
        Stderr (''ERROR: '' @ [quote] @ ''nowhere'' @ [quote]
                @ '' is not a valid output directory'' @ [newline])]"
  using output_dir_checked_first [where world = sample_world and h = "''h''"
      and output_dir = "''nowhere''" and key = "''K''"
      and args = "\<lparr>config = ''/home/u/.vtapi'', command = Pcap ''h'' ''nowhere''\<rparr>"]
  by (simp add: sample_key sample_facts api_calls_def)

subsection \<open>Print or persist\<close>

text \<open>
  C4. For \<^verbatim>\<open>pcap\<close> and \<^verbatim>\<open>download\<close> (each with the call it delegates to and the
  path it writes), once the configuration and the output directory are accepted: when
  the answer of the call is a dict, the run prints it and does nothing else, so no file
  is written; when the answer is bytes (and the file can be opened), the first thing the
  run does after the call is to write exactly these bytes to the file.
\<close>

theorem print_or_persist:
  assumes "(command args, c, p) \<in>
      {(Pcap h output_dir, GetNetworkTraffic h, os_path_join output_dir (h @ ''.pcap'')),
       (Download h output_dir, GetFile h, os_path_join output_dir h)}"
    and "configured_key world (expanduser world (config args)) = Some key"
    and "path_isdir world output_dir"
  shows "(VTPrivateAPI world key c = Json (JDict kvs) \<longrightarrow>
            run_script world args =
              (fst (SafeConfigParser world)
               @ [ClientInit key, ApiCall c,
                  Stdout (json_dumps True (Some 4) (JDict kvs) @ [newline])], 0))
       \<and> (VTPrivateAPI world key c = Bytes b \<and> open_wb world p \<longrightarrow>
            (\<exists>rest. fst (run_script world args) =
               fst (SafeConfigParser world) @ [ClientInit key, ApiCall c, FileWrite p b] @ rest))"
  using assms(1,3)
  by (auto simp: run_script_def main_with_key [OF assms(2)] handler_defs io_defs
      split: response.splits)

theorem print_or_persist_witness:
  "run_script sample_world \<lparr>config = ''/home/u/.vtapi'', command = Download ''missing'' ''out''\<rparr> =
     ([ClientInit ''K'', ApiCall (GetFile ''missing''),
       Stdout (json_dumps True (Some 4) not_found @ [newline])], 0)
   \<and> (\<exists>rest. fst (run_script sample_world
        \<lparr>config = ''/home/u/.vtapi'', command = Pcap ''h'' ''out''\<rparr>) =
     [ClientInit ''K'', ApiCall (GetNetworkTraffic ''h''), FileWrite ''out/h.pcap'' [3]] @ rest)"
  using
    print_or_persist [where world = sample_world and key = "''K''" and h = "''missing''"
      and output_dir = "''out''" and c = "GetFile ''missing''"
      and p = "os_path_join ''out'' ''missing''"
      and kvs = "[(ustr ''response_code'', JInt 404),
        (ustr ''error'', JStr (ustr ''File not found.''))]"
      and args = "\<lparr>config = ''/home/u/.vtapi'', command = Download ''missing'' ''out''\<rparr>"]
    print_or_persist [where world = sample_world and key = "''K''" and h = "''h''"
      and output_dir = "''out''" and c = "GetNetworkTraffic ''h''"
      and p = "os_path_join ''out'' (''h'' @ ''.pcap'')" and b = "[3]"
      and args = "\<lparr>config = ''/home/u/.vtapi'', command = Pcap ''h'' ''out''\<rparr>"]
  by (simp add: sample_key sample_facts not_found_def os_path_join_def)

text \<open>
  C8. Once the configuration and the output directory are accepted, for a hash that does
  not begin with a slash: when \<^verbatim>\<open>pcap\<close> gets bytes, all the run does after the call
  is to write them to the output directory, a slash unless the directory already ends
  with one, the hash and \<^verbatim>\<open>.pcap\<close>; when \<^verbatim>\<open>download\<close> gets bytes, it writes them
  to the same place under the bare hash.
\<close>

theorem persisted_paths:
  assumes "configured_key world (expanduser world (config args)) = Some key"
    and "path_isdir world output_dir"
    and "h = [] \<or> hd h \<noteq> CHR ''/''"
  shows "(let dir = (if output_dir = [] \<or> last output_dir = CHR ''/'' then output_dir
                     else output_dir @ ''/'')
          in (command args = Pcap h output_dir
                \<and> VTPrivateAPI world key (GetNetworkTraffic h) = Bytes b
                \<and> open_wb world (dir @ h @ ''.pcap'') \<longrightarrow>
              run_script world args =
                (fst (SafeConfigParser world)
                 @ [ClientInit key, ApiCall (GetNetworkTraffic h),
                    FileWrite (dir @ h @ ''.pcap'') b], 0))
           \<and> (command args = Download h output_dir
                \<and> VTPrivateAPI world key (GetFile h) = Bytes b
                \<and> open_wb world (dir @ h) \<longrightarrow>
              (\<exists>rest. fst (run_script world args) =
                 fst (SafeConfigParser world)
                 @ [ClientInit key, ApiCall (GetFile h), FileWrite (dir @ h) b] @ rest)))"
proof -
  have pcap: "os_path_join output_dir (h @ ''.pcap'') =
      (if output_dir = [] \<or> last output_dir = CHR ''/'' then output_dir
       else output_dir @ ''/'') @ h @ ''.pcap''"
    using assms(3) by (cases h) (auto simp: os_path_join_def)
  have dl: "os_path_join output_dir h =
      (if output_dir = [] \<or> last output_dir = CHR ''/'' then output_dir
       else output_dir @ ''/'') @ h"
    using assms(3) by (auto simp: os_path_join_def)
  show ?thesis
    unfolding Let_def
  proof (intro conjI impI)
    assume a: "command args = Pcap h output_dir
        \<and> VTPrivateAPI world key (GetNetworkTraffic h) = Bytes b
        \<and> open_wb world ((if output_dir = [] \<or> last output_dir = CHR ''/'' then output_dir
             else output_dir @ ''/'') @ h @ ''.pcap'')"
    with assms(2) show "run_script world args =
        (fst (SafeConfigParser world)
         @ [ClientInit key, ApiCall (GetNetworkTraffic h),
          FileWrite ((if output_dir = [] \<or> last output_dir = CHR ''/'' then output_dir
             else output_dir @ ''/'') @ h @ ''.pcap'') b], 0)"
      by (simp add: run_script_def main_with_key [OF assms(1)] network_traffic_def
          write_file_def io_defs pcap del: append_assoc)
  next
    assume a: "command args = Download h output_dir
        \<and> VTPrivateAPI world key (GetFile h) = Bytes b
        \<and> open_wb world ((if output_dir = [] \<or> last output_dir = CHR ''/'' then output_dir
             else output_dir @ ''/'') @ h)"
    with assms(2) show "\<exists>rest. fst (run_script world args) =
        fst (SafeConfigParser world)
        @ [ClientInit key, ApiCall (GetFile h),
         FileWrite ((if output_dir = [] \<or> last output_dir = CHR ''/'' then output_dir
             else output_dir @ ''/'') @ h) b] @ rest"
      by (auto simp: run_script_def main_with_key [OF assms(1)] file_download_def
          write_file_def file_report_def check_num_args_def pretty_print_json_def io_defs dl
          split: response.splits simp del: append_assoc)
  qed
qed

theorem persisted_paths_witness:
  "run_script sample_world \<lparr>config = ''/home/u/.vtapi'', command = Pcap ''h'' ''out''\<rparr> =
     ([ClientInit ''K'', ApiCall (GetNetworkTraffic ''h''), FileWrite ''out/h.pcap'' [3]], 0)
   \<and> (\<exists>rest. fst (run_script sample_world
        \<lparr>config = ''/home/u/.vtapi'', command = Download ''h'' ''out''\<rparr>) =
     [ClientInit ''K'', ApiCall (GetFile ''h''), FileWrite ''out/h'' [1, 2]] @ rest)"
  using
    persisted_paths [where world = sample_world and key = "''K''" and h = "''h''"
      and output_dir = "''out''" and b = "[3]"
      and args = "\<lparr>config = ''/home/u/.vtapi'', command = Pcap ''h'' ''out''\<rparr>"]
    persisted_paths [where world = sample_world and key = "''K''" and h = "''h''"
      and output_dir = "''out''" and b = "[1, 2]"
      and args = "\<lparr>config = ''/home/u/.vtapi'', command = Download ''h'' ''out''\<rparr>"]
  by (simp add: sample_key sample_facts)

subsection \<open>Download, then report\<close>

text \<open>
  C3. For \<^verbatim>\<open>download\<close>, once the configuration and the output directory are
  accepted: when the get-file call returns bytes and the file can be opened, the run
  writes the bytes to the file, then makes one file-report call for the same hash, then
  prints that report (a JSON value) with sorted keys and an indent of 4, and does
  nothing else.
\<close>

theorem download_then_report:
  assumes "command args = Download h output_dir"
    and "configured_key world (expanduser world (config args)) = Some key"
    and "path_isdir world output_dir"
    and "VTPrivateAPI world key (GetFile h) = Bytes b"
    and "open_wb world (os_path_join output_dir h)"
    and "VTPrivateAPI world key (GetFileReport h) = Json report"
  shows "run_script world args =
    (fst (SafeConfigParser world)
     @ [ClientInit key,
        ApiCall (GetFile h),
        FileWrite (os_path_join output_dir h) b,
        ApiCall (GetFileReport h),
        Stdout (json_dumps True (Some 4) report @ [newline])], 0)"
  using assms(1,3-)
  by (simp add: run_script_def main_with_key [OF assms(2)] handler_defs io_defs)

theorem download_then_report_witness:
  "run_script sample_world \<lparr>config = ''/home/u/.vtapi'', command = Download ''h'' ''out''\<rparr> =
    ([ClientInit ''K'',
      ApiCall (GetFile ''h''),
      FileWrite ''out/h'' [1, 2],
      ApiCall (GetFileReport ''h''),
      Stdout (json_dumps True (Some 4)
                sample_report @ [newline])], 0)"
  using download_then_report [where world = sample_world and key = "''K''" and h = "''h''"
      and output_dir = "''out''" and b = "[1, 2]"
      and report = sample_report
      and args = "\<lparr>config = ''/home/u/.vtapi'', command = Download ''h'' ''out''\<rparr>"]
  by (simp add: sample_key sample_facts os_path_join_def)

subsection \<open>One report\<close>

text \<open>
  C7. \<^verbatim>\<open>file-report abc123\<close> with a configuration that holds a key: the run
  constructs the client, makes one call, the report call with the argument
  \<^verbatim>\<open>abc123\<close>, prints its answer (a JSON value) once on standard output, and ends
  with exit code 0.
\<close>

theorem file_report_single_hash:
  assumes "command args = FileReport [''abc123'']"
    and "configured_key world (expanduser world (config args)) = Some key"
    and "VTPrivateAPI world key (GetFileReport ''abc123'') = Json obj"
  shows "run_script world args =
    (fst (SafeConfigParser world)
     @ [ClientInit key, ApiCall (GetFileReport ''abc123''),
        Stdout (json_dumps True (Some 4) obj @ [newline])], 0)"
  using assms(1,3)
  by (simp add: run_script_def main_with_key [OF assms(2)] handler_defs io_defs)

theorem file_report_single_hash_witness:
  "run_script sample_world \<lparr>config = ''/home/u/.vtapi'', command = FileReport [''abc123'']\<rparr> =
    ([ClientInit ''K'', ApiCall (GetFileReport ''abc123''),
      Stdout (json_dumps True (Some 4)
                sample_report @ [newline])], 0)"
  using file_report_single_hash [where world = sample_world and key = "''K''"
      and obj = sample_report
      and args = "\<lparr>config = ''/home/u/.vtapi'', command = FileReport [''abc123'']\<rparr>"]
  by (simp add: sample_key sample_facts)

subsection \<open>No subcommand\<close>

text \<open>
  C10, as stated, has the run print nothing when no subcommand is given. Under an
  interpreter that reports deprecation warnings, \<open>parse_config\<close> constructs a
  \<^verbatim>\<open>SafeConfigParser\<close> and the warning for it appears on standard error.
\<close>

theorem prints_nothing_counterexample:
  "printed (fst (run_script warning_world
      \<lparr>config = ''/home/u/.vtapi'', command = NoCommand\<rparr>)) \<noteq> []"
  by (simp add: run_script_def main_def parse_config_def config_get_def warning_world_def
      sample_world_def io_defs Let_def printed_def)

text \<open>
  C10, amended. With no subcommand the configuration is still loaded: a missing file is
  the fatal error of every run. With a key, the run constructs the client and ends with
  exit code 0: it makes no call, prints nothing on standard output, and nothing on
  standard error but the deprecation warning for \<^verbatim>\<open>SafeConfigParser\<close>, where the
  interpreter reports it.
\<close>

theorem no_subcommand:
  assumes "command args = NoCommand"
  shows "(\<not> path_exists world (expanduser world (config args)) \<longrightarrow>
            run_script world args =
              ([Stderr (''ERROR: Config file '' @ [quote] @ expanduser world (config args)
                        @ [quote] @ '' does not exist'' @ [newline])], 1))
       \<and> (configured_key world (expanduser world (config args)) = Some key \<longrightarrow>
            run_script world args =
              ((if shows_deprecation world then [DeprecationWarning] else []) @ [ClientInit key], 0)
          \<and> api_calls (fst (run_script world args)) = []
          \<and> printed (fst (run_script world args)) =
              (if shows_deprecation world then [DeprecationWarning] else []))"
proof (intro conjI impI)
  assume "\<not> path_exists world (expanduser world (config args))"
  then show "run_script world args =
      ([Stderr (''ERROR: Config file '' @ [quote] @ expanduser world (config args)
                @ [quote] @ '' does not exist'' @ [newline])], 1)"
    by (simp add: run_script_def main_def parse_config_def io_defs print_line_def Let_def)
next
  assume k: "configured_key world (expanduser world (config args)) = Some key"
  from assms show "run_script world args =
      ((if shows_deprecation world then [DeprecationWarning] else []) @ [ClientInit key], 0)"
    by (simp add: run_script_def main_with_key [OF k] io_defs)
  then show "api_calls (fst (run_script world args)) = []"
    by (simp add: api_calls_def)
  from assms show "printed (fst (run_script world args)) =
      (if shows_deprecation world then [DeprecationWarning] else [])"
    by (simp add: run_script_def main_with_key [OF k] io_defs printed_def)
qed

theorem no_subcommand_witness:
  "run_script sample_world \<lparr>config = ''/nowhere'', command = NoCommand\<rparr> =
     ([Stderr (''ERROR: Config file '' @ [quote] @ ''/nowhere'' @ [quote]
               @ '' does not exist'' @ [newline])], 1)
   \<and> run_script sample_world \<lparr>config = ''/home/u/.vtapi'', command = NoCommand\<rparr> =
     ([ClientInit ''K''], 0)
   \<and> run_script warning_world \<lparr>config = ''/home/u/.vtapi'', command = NoCommand\<rparr> =
     ([DeprecationWarning, ClientInit ''K''], 0)
   \<and> printed (fst (run_script warning_world
        \<lparr>config = ''/home/u/.vtapi'', command = NoCommand\<rparr>)) = [DeprecationWarning]"
proof -
  have e: "expanduser sample_world p = p" "expanduser warning_world p = p" for p
    by (simp_all add: sample_world_def warning_world_def)
  have w: "configured_key warning_world ''/home/u/.vtapi'' = Some ''K''"
    "shows_deprecation warning_world" "\<not> shows_deprecation sample_world"
    by (simp_all add: configured_key_def sample_world_def warning_world_def)
  show ?thesis
    using
      no_subcommand [where world = sample_world and key = "''K''"
        and args = "\<lparr>config = ''/nowhere'', command = NoCommand\<rparr>"]
      no_subcommand [where world = sample_world and key = "''K''"
        and args = "\<lparr>config = ''/home/u/.vtapi'', command = NoCommand\<rparr>"]
      no_subcommand [where world = warning_world and key = "''K''"
        and args = "\<lparr>config = ''/home/u/.vtapi'', command = NoCommand\<rparr>"]
      sample_facts(3) sample_key
    by (simp add: e w printed_def)
qed

subsection \<open>How many calls\<close>

text \<open>The calls of a run whose configuration holds a key, command by command.\<close>

lemma api_calls_run:
  assumes k: "configured_key world (expanduser world (config args)) = Some key"
  shows "api_calls (fst (run_script world args)) =
    (case command args of
       NoCommand \<Rightarrow> []
     | FileScan file \<Rightarrow> [ApiCall (ScanFile file)]
     | Rescan xs \<Rightarrow> (if 25 < length xs then [] else [ApiCall (RescanFile (str_join '','' xs))])
     | FileReport xs \<Rightarrow>
         (if 25 < length xs then [] else [ApiCall (GetFileReport (str_join '','' xs))])
     | Behaviour h \<Rightarrow> [ApiCall (GetFileBehaviour h)]
     | Pcap h output_dir \<Rightarrow>
         (if path_isdir world output_dir then [ApiCall (GetNetworkTraffic h)] else [])
     | Search query \<Rightarrow> [ApiCall (FileSearch query)]
     | Download h output_dir \<Rightarrow>
         (if path_isdir world output_dir then
            ApiCall (GetFile h) #
            (case VTPrivateAPI world key (GetFile h) of
               Bytes b \<Rightarrow>
                 (if open_wb world (os_path_join output_dir h) then [ApiCall (GetFileReport h)]
                  else [])
             | Json obj \<Rightarrow> [])
          else [])
     | UrlScan xs \<Rightarrow> (if 25 < length xs then [] else [ApiCall (ScanUrl (str_join [newline] xs))])
     | UrlReport xs \<Rightarrow>
         (if 25 < length xs then [] else [ApiCall (GetUrlReport (str_join [newline] xs))])
     | IpReport ip \<Rightarrow> [ApiCall (GetIpReport ip)]
     | DomainReport domain \<Rightarrow> [ApiCall (GetDomainReport domain)])"
proof (cases "command args")
  case (Download h output_dir)
  then show ?thesis
    by (cases "VTPrivateAPI world key (GetFile h)")
      (simp_all add: run_script_def main_with_key [OF k] file_download_def write_file_def
        file_report_def check_num_args_def pretty_print_json_def io_defs api_calls_def
        split: response.splits)
next
  case (Pcap h output_dir)
  then show ?thesis
    by (cases "VTPrivateAPI world key (GetNetworkTraffic h)")
      (simp_all add: run_script_def main_with_key [OF k] network_traffic_def write_file_def
        pretty_print_json_def not_a_directory_def io_defs api_calls_def)
qed (simp_all add: run_script_def main_with_key [OF k] handler_defs io_defs api_calls_def
    split: response.splits)

lemma calls_with_key:
  assumes k: "configured_key world (expanduser world (config args)) = Some key"
  shows "length (api_calls (fst (run_script world args))) \<le> 2"
    and "\<not> is_download (command args) \<Longrightarrow> length (api_calls (fst (run_script world args))) \<le> 1"
    and "\<not> is_download (command args) \<Longrightarrow> command args \<noteq> NoCommand \<Longrightarrow>
      passes_validation world (command args) \<Longrightarrow> length (api_calls (fst (run_script world args))) = 1"
    and "\<not> passes_validation world (command args) \<Longrightarrow> api_calls (fst (run_script world args)) = []"
    and "length (api_calls (fst (run_script world args))) = 2 \<Longrightarrow>
      \<exists>h output_dir b. command args = Download h output_dir
        \<and> VTPrivateAPI world key (GetFile h) = Bytes b
        \<and> api_calls (fst (run_script world args)) = [ApiCall (GetFile h), ApiCall (GetFileReport h)]"
  unfolding api_calls_run [OF k]
  by (cases "command args"; simp split: response.splits if_splits)+

text \<open>
  C9, as stated, asks for exactly one call from every command but \<^verbatim>\<open>download\<close>.
  \<^verbatim>\<open>rescan\<close> with 26 hashes is stopped by \<open>check_num_args\<close> and makes none.
\<close>

theorem one_call_counterexample:
  "length (api_calls (fst (run_script sample_world
      \<lparr>config = ''/home/u/.vtapi'', command = Rescan (replicate 26 ''h'')\<rparr>))) \<noteq> 1"
  by (simp add: run_script_def main_with_key [where key = "''K''"] sample_key
      file_rescan_def check_num_args_def io_defs api_calls_def)

text \<open>
  C9, amended. Every run makes at most two calls of the client, and at most one unless
  the command is \<^verbatim>\<open>download\<close>. A command other than \<^verbatim>\<open>download\<close> makes exactly
  one call when the configuration holds a key and the command's own check passes (at most
  25 list entries; for \<^verbatim>\<open>pcap\<close> an existing output directory); a run with no key, or
  whose check fails, makes none. A run makes two calls only for \<^verbatim>\<open>download\<close> when the
  first call returned bytes, and the two are get-file, then the report for the same hash.
\<close>

theorem delegated_call_count:
  "length (api_calls (fst (run_script world args))) \<le> 2
   \<and> (\<not> is_download (command args) \<longrightarrow>
        length (api_calls (fst (run_script world args))) \<le> 1)
   \<and> (configured_key world (expanduser world (config args)) = Some key
        \<and> \<not> is_download (command args) \<and> command args \<noteq> NoCommand
        \<and> passes_validation world (command args) \<longrightarrow>
        length (api_calls (fst (run_script world args))) = 1)
   \<and> (configured_key world (expanduser world (config args)) = None
        \<or> \<not> passes_validation world (command args) \<longrightarrow>
        api_calls (fst (run_script world args)) = [])
   \<and> (length (api_calls (fst (run_script world args))) = 2 \<longrightarrow>
        (\<exists>h output_dir k b.
           command args = Download h output_dir
         \<and> configured_key world (expanduser world (config args)) = Some k
         \<and> VTPrivateAPI world k (GetFile h) = Bytes b
         \<and> api_calls (fst (run_script world args)) =
             [ApiCall (GetFile h), ApiCall (GetFileReport h)]))"
proof (cases "configured_key world (expanduser world (config args))")
  case None
  with run_script_no_key [OF None] show ?thesis
    by simp
next
  case (Some k)
  from calls_with_key [OF Some] Some show ?thesis
    by (intro conjI impI) auto
qed

theorem delegated_call_count_witness:
  "length (api_calls (fst (run_script sample_world
      \<lparr>config = ''/home/u/.vtapi'', command = IpReport ''8.8.8.8''\<rparr>))) = 1
   \<and> api_calls (fst (run_script sample_world
      \<lparr>config = ''/home/u/.vtapi'', command = Pcap ''h'' ''nowhere''\<rparr>)) = []
   \<and> length (api_calls (fst (run_script sample_world
      \<lparr>config = ''/home/u/.vtapi'', command = Download ''h'' ''out''\<rparr>))) \<le> 2
   \<and> api_calls (fst (run_script sample_world
      \<lparr>config = ''/home/u/.vtapi'', command = Download ''h'' ''out''\<rparr>)) =
     [ApiCall (GetFile ''h''), ApiCall (GetFileReport ''h'')]"
proof -
  let ?d = "\<lparr>config = ''/home/u/.vtapi'', command = Download ''h'' ''out''\<rparr>"
  have two: "length (api_calls (fst (run_script sample_world ?d))) = 2"
    by (simp add: run_script_def main_with_key [where key = "''K''"] sample_key
        file_download_def write_file_def file_report_def check_num_args_def
        pretty_print_json_def io_defs api_calls_def sample_facts)
  from delegated_call_count [where world = sample_world and args = ?d] two
  obtain h output_dir where "command ?d = Download h output_dir"
    and "api_calls (fst (run_script sample_world ?d)) =
      [ApiCall (GetFile h), ApiCall (GetFileReport h)]"
    by blast
  then have both: "api_calls (fst (run_script sample_world ?d)) =
      [ApiCall (GetFile ''h''), ApiCall (GetFileReport ''h'')]"
    by simp
  have rest: "length (api_calls (fst (run_script sample_world
        \<lparr>config = ''/home/u/.vtapi'', command = IpReport ''8.8.8.8''\<rparr>))) = 1
     \<and> api_calls (fst (run_script sample_world
        \<lparr>config = ''/home/u/.vtapi'', command = Pcap ''h'' ''nowhere''\<rparr>)) = []
     \<and> length (api_calls (fst (run_script sample_world ?d))) \<le> 2"
    using
      delegated_call_count [where world = sample_world and key = "''K''"
        and args = "\<lparr>config = ''/home/u/.vtapi'', command = IpReport ''8.8.8.8''\<rparr>"]
      delegated_call_count [where world = sample_world and key = "''K''"
        and args = "\<lparr>config = ''/home/u/.vtapi'', command = Pcap ''h'' ''nowhere''\<rparr>"]
      delegated_call_count [where world = sample_world and key = "''K''" and args = ?d]
    by (simp add: sample_key sample_facts)
  from rest both show ?thesis
    by blast
qed

subsection \<open>What is printed\<close>


lemma join_lines_single [simp]: "join_lines [l] = l"
  by (simp add: join_lines_def)













subsection \<open>Characters\<close>









subsection \<open>String literals\<close>

lemma special_chars_differ [simp]:
  "backslash \<noteq> dquote" "dquote \<noteq> backslash" "newline \<noteq> dquote" "dquote \<noteq> newline"
  "newline \<noteq> backslash" "backslash \<noteq> newline" "dquote \<noteq> CHR '' ''" "newline \<noteq> CHR '' ''"
  "CHR '' '' \<noteq> dquote" "CHR '' '' \<noteq> newline"
  by (simp_all add: backslash_def dquote_def newline_def)











subsection \<open>The lines of the text\<close>






subsection \<open>What a line shows\<close>

















lemma laid_out_simps [simp]:
  "laid_out [] = []"
  "laid_out ((d, k) # ol) = (4 * d, map_option encode_basestring_ascii k) # laid_out ol"
  "laid_out (a @ b) = laid_out a @ laid_out b"
  by (simp_all add: laid_out_def)




subsection \<open>Sorted keys\<close>









subsection \<open>The printed text, read back\<close>










subsection \<open>An answer that is neither a dict nor bytes\<close>

text \<open>
  The test of \<^verbatim>\<open>pcap\<close> and \<^verbatim>\<open>download\<close> is \<^verbatim>\<open>type(response) is dict\<close>: a JSON
  value of another shape takes the path of the bytes. The file is opened, and the write
  raises.
\<close>

lemma other_json_is_not_printed:
  assumes "command args = Pcap h output_dir"
    and "configured_key world (expanduser world (config args)) = Some key"
    and "path_isdir world output_dir"
    and "VTPrivateAPI world key (GetNetworkTraffic h) = Json obj"
    and "\<not> is_dict (Json obj)"
    and "open_wb world (os_path_join output_dir (h @ ''.pcap''))"
  shows "run_script world args =
    (fst (SafeConfigParser world)
     @ [ClientInit key, ApiCall (GetNetworkTraffic h),
        FileWrite (os_path_join output_dir (h @ ''.pcap'')) [], Traceback TypeError], 1)"
  using assms(1,3-)
  by (simp add: run_script_def main_with_key [OF assms(2)] network_traffic_def write_file_def
      io_defs)

end
